theory Spec2Isabelle
  imports Main
begin

section \<open>Data model of the Sesame3 accessory\<close>

text \<open>
  The accessory class \<open>Sesame3\<close> keeps its belief about the lock in the persisted
  \<open>accessory.context\<close>, mirrors it into the characteristics of the accessory's services, and
  talks to a client, a mutex, timers and a history service. The embedding passes all of that
  around as one record. Calls that leave the class (characteristic updates, commands, sleeps,
  polls, timers) are appended to \<open>effects\<close> in the order the code issues them. Log lines
  are left out: no operation reads them back.
\<close>

text \<open>
  The lock-state and contact-state constants are those of the accessory framework, which the
  code only compares with \<open>===\<close>; they are kept as enumerations.
\<close>

datatype LockState = UNSECURED | SECURED | JAMMED | UNKNOWN

datatype ContactSensorState = CONTACT_DETECTED | CONTACT_NOT_DETECTED

datatype Command = lock | unlock

datatype Client = CandyClient | CognitoClient

datatype error = Error string | TypeError

text \<open>
  \<open>context.timesOpened\<close> is a JavaScript number that the code sets to \<open>undefined\<close>,
  defaults with \<open>??=\<close> and increments with \<open>++\<close>; incrementing \<open>undefined\<close> gives
  \<open>NaN\<close>.
\<close>

datatype number = Undefined | NaN | Number int

fun increment :: "number \<Rightarrow> number" where
  "increment Undefined = NaN"
| "increment NaN = NaN"
| "increment (Number n) = Number (n + 1)"

record CHSesame2MechStatus =
  isInLockRange :: bool
  isInUnlockRange :: bool
  batteryPercentage :: int
  isBatteryCritical :: bool

text \<open>\<open>accessory.context\<close>: every field may be missing (\<open>None\<close>, \<open>Undefined\<close>).\<close>

record Context =
  lockState :: "LockState option"
  batteryLevel :: "int option"
  batteryCritical :: "bool option"
  timesOpened :: number
  lastReset :: "int option"
  lastActivation :: "int option"

record Entry =
  time :: int
  status :: ContactSensorState

text \<open>
  The history service is an object of an external library; the code reads its initial time
  and appends entries to it.
\<close>

record HistoryService =
  getInitialTime :: int
  entries :: "Entry list"

text \<open>The contact sensor service with the characteristics the code touches.\<close>

record ContactSensor =
  ContactSensorState_value :: ContactSensorState
  TimesOpened_value :: number
  LastActivation_value :: "int option"

record PlatformAccessory =
  "context" :: Context
  LockTargetState :: "LockState option"
  LockCurrentState :: "LockState option"
  BatteryLevel :: "int option"
  StatusLowBattery :: "bool option"
  getService_ContactSensor :: "ContactSensor option"

datatype effect =
    Acquire
  | Release
  | PostCmd Command
  | Sleep nat
  | GetMechStatus
  | Subscribe
  | ClientShutdown
  | SetTimeout nat
  | Update_LockTargetState "LockState option"
  | Update_LockCurrentState "LockState option"
  | Update_BatteryLevel "int option"
  | Update_StatusLowBattery "bool option"
  | Update_ContactSensorState ContactSensorState
  | Update_TimesOpened number
  | Update_LastActivation int

record Sesame3 =
  client :: Client
  accessory :: PlatformAccessory
  historyService :: "HistoryService option"
  timers :: "nat list"
  effects :: "effect list"

section \<open>Operations\<close>

definition emit :: "effect \<Rightarrow> Sesame3 \<Rightarrow> Sesame3" where
  "emit e this = this\<lparr>effects := effects this @ [e]\<rparr>"

definition getBatteryLevel :: "Sesame3 \<Rightarrow> int option" where
  "getBatteryLevel this = batteryLevel (context (accessory this))"

definition getStatusLowBattery :: "Sesame3 \<Rightarrow> bool option" where
  "getStatusLowBattery this = batteryCritical (context (accessory this))"

definition getLockState :: "Sesame3 \<Rightarrow> LockState option" where
  "getLockState this = lockState (context (accessory this))"

text \<open>\<open>addEntry\<close> of the history service appends to its log.\<close>

definition addEntry :: "Entry \<Rightarrow> HistoryService \<Rightarrow> HistoryService" where
  "addEntry entry h = h\<lparr>entries := entries h @ [entry]\<rparr>"

text \<open>
  Modelled from the spec: the numeric values of the framework's contact constants are not
  in the repository. The change handler tests \<open>entry.status\<close> for truth before it
  counts an opening, and the spec has the counter incremented on a change into "open"
  (contact not detected), so that value is the truthy one.
\<close>

fun truthy :: "ContactSensorState \<Rightarrow> bool" where
  "truthy CONTACT_DETECTED = False"
| "truthy CONTACT_NOT_DETECTED = True"

text \<open>\<open>sensor?.updateCharacteristic(...)\<close>: nothing happens without the service.\<close>

definition updateCharacteristic_LastActivation :: "int \<Rightarrow> Sesame3 \<Rightarrow> Sesame3" where
  "updateCharacteristic_LastActivation v this =
     (case getService_ContactSensor (accessory this) of
        None \<Rightarrow> this
      | Some sensor \<Rightarrow>
          emit (Update_LastActivation v)
            (this\<lparr>accessory := (accessory this)
               \<lparr>getService_ContactSensor := Some (sensor\<lparr>LastActivation_value := Some v\<rparr>)\<rparr>\<rparr>))"

definition updateCharacteristic_TimesOpened :: "number \<Rightarrow> Sesame3 \<Rightarrow> Sesame3" where
  "updateCharacteristic_TimesOpened v this =
     (case getService_ContactSensor (accessory this) of
        None \<Rightarrow> this
      | Some sensor \<Rightarrow>
          emit (Update_TimesOpened v)
            (this\<lparr>accessory := (accessory this)
               \<lparr>getService_ContactSensor := Some (sensor\<lparr>TimesOpened_value := v\<rparr>)\<rparr>\<rparr>))"

definition set_lastActivation :: "int \<Rightarrow> Sesame3 \<Rightarrow> Sesame3" where
  "set_lastActivation t this =
     this\<lparr>accessory := (accessory this)
       \<lparr>context := (context (accessory this))\<lparr>lastActivation := Some t\<rparr>\<rparr>\<rparr>"

definition set_timesOpened :: "number \<Rightarrow> Sesame3 \<Rightarrow> Sesame3" where
  "set_timesOpened n this =
     this\<lparr>accessory := (accessory this)
       \<lparr>context := (context (accessory this))\<lparr>timesOpened := n\<rparr>\<rparr>\<rparr>"

definition set_lastReset :: "int option \<Rightarrow> Sesame3 \<Rightarrow> Sesame3" where
  "set_lastReset r this =
     this\<lparr>accessory := (accessory this)
       \<lparr>context := (context (accessory this))\<lparr>lastReset := r\<rparr>\<rparr>\<rparr>"

text \<open>
  The handler of the contact sensor's \<open>change\<close> event. \<open>setupHistoryService\<close> registers
  it right after it has created the history service and nothing ever clears that field, so
  the handler is there exactly when \<open>historyService\<close> is set; without it the event is
  delivered to nobody. \<open>now\<close> is the clock reading
  \<open>Math.round(new Date().valueOf()/1000)\<close>.
\<close>

definition ContactSensorState_onChange ::
  "int \<Rightarrow> ContactSensorState \<Rightarrow> ContactSensorState \<Rightarrow> Sesame3 \<Rightarrow> Sesame3" where
  "ContactSensorState_onChange now oldValue newValue this =
     (case historyService this of
        None \<Rightarrow> this
      | Some h \<Rightarrow>
          if newValue \<noteq> oldValue then
            let entry = \<lparr>time = now, status = newValue\<rparr>;
                this1 = set_lastActivation (time entry) this;
                this2 = updateCharacteristic_LastActivation
                          (max 0 (time entry - getInitialTime h)) this1;
                this3 = (if truthy (status entry) then
                           let n = increment (timesOpened (context (accessory this2)))
                           in updateCharacteristic_TimesOpened n (set_timesOpened n this2)
                         else this2)
            in this3\<lparr>historyService := Some (addEntry entry h)\<rparr>
          else this)"

text \<open>
  \<open>updateContactSensorState\<close>: \<open>updateValue\<close> stores the derived state in the sensor
  and the change event carries the old and the new value.
\<close>

definition updateContactSensorState :: "int \<Rightarrow> Sesame3 \<Rightarrow> Sesame3" where
  "updateContactSensorState now this =
     (case getService_ContactSensor (accessory this) of
        None \<Rightarrow> this
      | Some sensor \<Rightarrow>
          let state = (if lockState (context (accessory this)) = Some SECURED
                       then CONTACT_DETECTED else CONTACT_NOT_DETECTED);
              this1 = emit (Update_ContactSensorState state)
                        (this\<lparr>accessory := (accessory this)
                           \<lparr>getService_ContactSensor :=
                              Some (sensor\<lparr>ContactSensorState_value := state\<rparr>)\<rparr>\<rparr>)
          in ContactSensorState_onChange now (ContactSensorState_value sensor) state this1)"

definition updateValue_LockTargetState :: "LockState option \<Rightarrow> Sesame3 \<Rightarrow> Sesame3" where
  "updateValue_LockTargetState v this =
     emit (Update_LockTargetState v) (this\<lparr>accessory := (accessory this)\<lparr>LockTargetState := v\<rparr>\<rparr>)"

definition updateValue_LockCurrentState :: "LockState option \<Rightarrow> Sesame3 \<Rightarrow> Sesame3" where
  "updateValue_LockCurrentState v this =
     emit (Update_LockCurrentState v) (this\<lparr>accessory := (accessory this)\<lparr>LockCurrentState := v\<rparr>\<rparr>)"

definition updateValue_BatteryLevel :: "int option \<Rightarrow> Sesame3 \<Rightarrow> Sesame3" where
  "updateValue_BatteryLevel v this =
     emit (Update_BatteryLevel v) (this\<lparr>accessory := (accessory this)\<lparr>BatteryLevel := v\<rparr>\<rparr>)"

definition updateValue_StatusLowBattery :: "bool option \<Rightarrow> Sesame3 \<Rightarrow> Sesame3" where
  "updateValue_StatusLowBattery v this =
     emit (Update_StatusLowBattery v) (this\<lparr>accessory := (accessory this)\<lparr>StatusLowBattery := v\<rparr>\<rparr>)"

text \<open>
  \<open>setLockStatus\<close>, the reconciler. A sample in both ranges or in neither is dropped, a
  sample that derives the stored state is dropped, and anything else is stored and published.
\<close>

definition setLockStatus :: "int \<Rightarrow> CHSesame2MechStatus \<Rightarrow> Sesame3 \<Rightarrow> Sesame3" where
  "setLockStatus now st this =
     (if isInLockRange st = isInUnlockRange st then this
      else
        let currentLockState = lockState (context (accessory this));
            newLockState = (if isInLockRange st then SECURED else UNSECURED)
        in if Some newLockState = currentLockState then this
           else
             let this1 = this\<lparr>accessory := (accessory this)
                           \<lparr>context := (context (accessory this))
                              \<lparr>lockState := Some newLockState,
                               batteryLevel := Some (batteryPercentage st),
                               batteryCritical := Some (isBatteryCritical st)\<rparr>\<rparr>\<rparr>;
                 this2 = updateValue_LockTargetState (getLockState this1) this1;
                 this3 = updateValue_LockCurrentState (getLockState this2) this2;
                 this4 = updateValue_BatteryLevel (getBatteryLevel this3) this3;
                 this5 = updateValue_StatusLowBattery (getStatusLowBattery this4) this4
             in updateContactSensorState now this5)"

text \<open>
  \<open>updateToLatestStatus\<close> is asynchronous. Calling it issues \<open>getMechStatus\<close> and
  returns; the rest runs when the client answers, with the sample or with nothing.
\<close>

definition updateToLatestStatus :: "Sesame3 \<Rightarrow> Sesame3" where
  "updateToLatestStatus this = emit GetMechStatus this"

definition updateToLatestStatus_resume ::
  "int \<Rightarrow> CHSesame2MechStatus option \<Rightarrow> Sesame3 \<Rightarrow> Sesame3" where
  "updateToLatestStatus_resume now st this =
     (case st of None \<Rightarrow> this | Some s \<Rightarrow> setLockStatus now s this)"

definition subscribe :: "Sesame3 \<Rightarrow> Sesame3" where
  "subscribe this = emit Subscribe this"

definition isWebAPIMode :: "Sesame3 \<Rightarrow> bool" where
  "isWebAPIMode this = (client this = CandyClient)"

section \<open>Command dispatch\<close>

text \<open>
  An operation that can throw returns the exception, if any, together with the accessory as
  the operation left it. \<open>postCmd\<close> is the client's call: \<open>response\<close> is what the
  remote service does with it, \<open>None\<close> for success and \<open>Some e\<close> for a rejection.
  The requester name sent along is a constant of the configuration and is left out.
\<close>

definition postCmd :: "error option \<Rightarrow> Command \<Rightarrow> Sesame3 \<Rightarrow> error option \<times> Sesame3" where
  "postCmd response cmd this = (response, emit (PostCmd cmd) this)"

text \<open>The mutex is released whether the callback returns or throws.\<close>

definition runExclusive ::
  "(Sesame3 \<Rightarrow> error option \<times> Sesame3) \<Rightarrow> Sesame3 \<Rightarrow> error option \<times> Sesame3" where
  "runExclusive callback this =
     (case callback (emit Acquire this) of (r, this') \<Rightarrow> (r, emit Release this'))"

text \<open>The callback that \<open>setLockTargetState\<close> runs under the mutex; \<open>2.5 * 1000 = 2500\<close>.\<close>

definition setLockTargetState_exclusive ::
  "error option \<Rightarrow> LockState \<Rightarrow> Command \<Rightarrow> Sesame3 \<Rightarrow> error option \<times> Sesame3" where
  "setLockTargetState_exclusive response v cmd this =
     (case postCmd response cmd (updateValue_LockTargetState (Some v) this) of
        (Some e, this') \<Rightarrow> (Some e, this')
      | (None, this') \<Rightarrow>
          if isWebAPIMode this' then (None, updateToLatestStatus (emit (Sleep 2500) this'))
          else (None, this'))"

definition setLockTargetState_try ::
  "error option \<Rightarrow> LockState \<Rightarrow> Command \<Rightarrow> Sesame3 \<Rightarrow> error option \<times> Sesame3" where
  "setLockTargetState_try response v cmd this =
     (case runExclusive (setLockTargetState_exclusive response v cmd) this of
        (None, this') \<Rightarrow> (None, this')
      | (Some e, this') \<Rightarrow> (None, updateValue_LockCurrentState (Some JAMMED) this'))"

fun setLockTargetState :: "error option \<Rightarrow> LockState \<Rightarrow> Sesame3 \<Rightarrow> error option \<times> Sesame3" where
  "setLockTargetState response SECURED this = setLockTargetState_try response SECURED lock this"
| "setLockTargetState response UNSECURED this = setLockTargetState_try response UNSECURED unlock this"
| "setLockTargetState response v this = (None, this)"

section \<open>History\<close>

text \<open>
  \<open>updateHistory\<close>, the heartbeat: one entry for the stored lock state, then a timer of
  \<open>10 * 60 * 1000\<close> milliseconds for the next call. The timer's handle is dropped.
\<close>

definition updateHistory :: "int \<Rightarrow> Sesame3 \<Rightarrow> error option \<times> Sesame3" where
  "updateHistory now this =
     (let state = (if lockState (context (accessory this)) = Some SECURED
                   then CONTACT_DETECTED else CONTACT_NOT_DETECTED)
      in case historyService this of
           None \<Rightarrow> (Some TypeError, this)
         | Some h \<Rightarrow>
             (None, emit (SetTimeout (10 * 60 * 1000))
                      (this\<lparr>historyService := Some (addEntry \<lparr>time = now, status = state\<rparr> h),
                            timers := timers this @ [10 * 60 * 1000]\<rparr>)))"

text \<open>A pending timer fires: it leaves the timer queue and runs \<open>updateHistory\<close>.\<close>

definition setTimeout_fire :: "int \<Rightarrow> Sesame3 \<Rightarrow> Sesame3" where
  "setTimeout_fire now this =
     (case timers this of
        [] \<Rightarrow> this
      | t # ts \<Rightarrow> snd (updateHistory now (this\<lparr>timers := ts\<rparr>)))"

text \<open>The handler of the framework's shutdown event.\<close>

definition onShutdown :: "Sesame3 \<Rightarrow> Sesame3" where
  "onShutdown this = emit ClientShutdown this"

text \<open>The write and read handlers of the sensor's Eve characteristics.\<close>

definition ResetTotal_onSet :: "int \<Rightarrow> Sesame3 \<Rightarrow> Sesame3" where
  "ResetTotal_onSet reset this =
     updateCharacteristic_TimesOpened (Number 0)
       (set_lastReset (Some reset) (set_timesOpened (Number 0) this))"

text \<open>
  \<open>Math.round(Date.parse('01 Jan 2001 00:00:00 GMT')/1000)\<close>: 31 years with 8 leap days
  after the Unix epoch.
\<close>

definition epoch_2001 :: int where
  "epoch_2001 = (31 * 365 + 8) * 24 * 60 * 60"

definition ResetTotal_onGet :: "Sesame3 \<Rightarrow> error + int" where
  "ResetTotal_onGet this =
     (case lastReset (context (accessory this)) of
        Some r \<Rightarrow> Inr r
      | None \<Rightarrow>
          (case historyService this of
             None \<Rightarrow> Inl TypeError
           | Some h \<Rightarrow> Inr (getInitialTime h - epoch_2001)))"

definition TimesOpened_onGet :: "Sesame3 \<Rightarrow> number" where
  "TimesOpened_onGet this = timesOpened (context (accessory this))"

definition LastActivation_onGet :: "Sesame3 \<Rightarrow> error + int" where
  "LastActivation_onGet this =
     (case lastActivation (context (accessory this)) of
        None \<Rightarrow> Inr 0
      | Some t \<Rightarrow>
          if t = 0 then Inr 0
          else (case historyService this of
                  None \<Rightarrow> Inl TypeError
                | Some h \<Rightarrow> Inr (max 0 (t - getInitialTime h))))"

section \<open>Construction\<close>

text \<open>
  \<open>setupHistoryService\<close>: the sensor service is taken from the accessory or added,
  the history service is created, the handlers above are registered, and the first
  heartbeat runs. \<open>addService\<close> is the sensor the framework would add and \<open>fakegato\<close> the
  object the history library constructs; both are outside the repository.
\<close>

definition setupHistoryService ::
  "ContactSensor \<Rightarrow> HistoryService \<Rightarrow> int \<Rightarrow> Sesame3 \<Rightarrow> error option \<times> Sesame3" where
  "setupHistoryService addService fakegato now this =
     (let sensor = (case getService_ContactSensor (accessory this) of
                      Some s \<Rightarrow> s | None \<Rightarrow> addService);
          this1 = this\<lparr>accessory := (accessory this)\<lparr>getService_ContactSensor := Some sensor\<rparr>,
                       historyService := Some fakegato\<rparr>
      in updateHistory now this1)"

text \<open>
  The constructor. \<open>clientID\<close> is \<open>platform.config.clientID\<close>, \<open>history\<close> is
  \<open>sesame.history\<close>, and the accessory is a new one or the one restored from the cache.
\<close>

definition nullish :: "'a option \<Rightarrow> 'a \<Rightarrow> 'a option" where
  "nullish v d = (case v of None \<Rightarrow> Some d | Some x \<Rightarrow> Some x)"

definition Sesame3_constructor ::
  "string option \<Rightarrow> bool option \<Rightarrow> ContactSensor \<Rightarrow> HistoryService \<Rightarrow> int \<Rightarrow>
   PlatformAccessory \<Rightarrow> Sesame3" where
  "Sesame3_constructor clientID history addService fakegato now acc =
     (let c = (if clientID \<noteq> None \<and> clientID \<noteq> Some [] then CognitoClient else CandyClient);
          ctx = context acc;
          ctx1 = ctx\<lparr>lockState := nullish (lockState ctx) SECURED,
                     batteryLevel := nullish (batteryLevel ctx) 100,
                     batteryCritical := nullish (batteryCritical ctx) False,
                     timesOpened := (case timesOpened ctx of Undefined \<Rightarrow> Number 0 | n \<Rightarrow> n),
                     lastReset := nullish (lastReset ctx) 0\<rparr>;
          this = \<lparr>client = c, accessory = acc\<lparr>context := ctx1\<rparr>, historyService = None,
                  timers = [], effects = []\<rparr>;
          this1 = (if history = Some True then
                     snd (setupHistoryService addService fakegato now this)
                   else
                     this\<lparr>accessory := (accessory this)
                       \<lparr>context := (context (accessory this))
                          \<lparr>batteryLevel := Some 100,
                           batteryCritical := Some False,
                           timesOpened := Undefined,
                           lastReset := None\<rparr>\<rparr>\<rparr>)
      in subscribe (updateToLatestStatus this1))"

section \<open>The accessory as a reactive system\<close>

text \<open>
  After construction the accessory only reacts: to a sample pushed by the subscription, to
  the answer of a poll, to a write of the target state (with the remote service's response
  to the command), to the heartbeat timer, to a write of \<open>ResetTotal\<close>, to the shutdown
  event, and to a restart of the process, which constructs the class again on the accessory
  as it was persisted. The handlers of the Eve characteristics and the heartbeat exist only
  when \<open>setupHistoryService\<close> has run.
\<close>

datatype event =
    Subscription int CHSesame2MechStatus
  | MechStatus int "CHSesame2MechStatus option"
  | LockTargetState_onSet "error option" LockState
  | Timeout int
  | ResetTotal_write int
  | SHUTDOWN
  | Restart "string option" "bool option" ContactSensor HistoryService int

fun step :: "event \<Rightarrow> Sesame3 \<Rightarrow> Sesame3" where
  "step (Subscription now st) this = setLockStatus now st this"
| "step (MechStatus now st) this = updateToLatestStatus_resume now st this"
| "step (LockTargetState_onSet response v) this = snd (setLockTargetState response v this)"
| "step (Timeout now) this = setTimeout_fire now this"
| "step (ResetTotal_write reset) this =
     (if historyService this = None then this else ResetTotal_onSet reset this)"
| "step SHUTDOWN this = onShutdown this"
| "step (Restart clientID history addService fakegato now) this =
     Sesame3_constructor clientID history addService fakegato now (accessory this)"

fun run :: "event list \<Rightarrow> Sesame3 \<Rightarrow> Sesame3" where
  "run [] this = this"
| "run (e # es) this = run es (step e this)"

section \<open>The lock states a sample can derive\<close>

definition known :: "LockState option \<Rightarrow> bool" where
  "known v = (v = Some SECURED \<or> v = Some UNSECURED)"

section \<open>Sample inputs\<close>

text \<open>
  A new accessory has an empty context and no services yet; the sensor and the history
  service stand for what the framework and the history library hand out.
\<close>

definition new_platformAccessory :: PlatformAccessory where
  "new_platformAccessory =
     \<lparr>context = \<lparr>lockState = None, batteryLevel = None, batteryCritical = None,
                 timesOpened = Undefined, lastReset = None, lastActivation = None\<rparr>,
      LockTargetState = None, LockCurrentState = None, BatteryLevel = None,
      StatusLowBattery = None, getService_ContactSensor = None\<rparr>"

definition sample_sensor :: ContactSensor where
  "sample_sensor =
     \<lparr>ContactSensorState_value = CONTACT_DETECTED, TimesOpened_value = Undefined,
      LastActivation_value = None\<rparr>"

definition sample_fakegato :: HistoryService where
  "sample_fakegato = \<lparr>getInitialTime = 1700000000, entries = []\<rparr>"

definition sample_polling :: Sesame3 where
  "sample_polling =
     Sesame3_constructor None (Some True) sample_sensor sample_fakegato 1700000000
       new_platformAccessory"

definition sample_push :: Sesame3 where
  "sample_push =
     Sesame3_constructor (Some ''id'') None sample_sensor sample_fakegato 1700000000
       new_platformAccessory"

definition sample_unlocked :: CHSesame2MechStatus where
  "sample_unlocked =
     \<lparr>isInLockRange = False, isInUnlockRange = True, batteryPercentage = 40,
      isBatteryCritical = False\<rparr>"

definition sample_locked :: CHSesame2MechStatus where
  "sample_locked =
     \<lparr>isInLockRange = True, isInUnlockRange = False, batteryPercentage = 40,
      isBatteryCritical = False\<rparr>"

definition sample_ambiguous :: CHSesame2MechStatus where
  "sample_ambiguous =
     \<lparr>isInLockRange = True, isInUnlockRange = True, batteryPercentage = 40,
      isBatteryCritical = True\<rparr>"

section \<open>Auxiliary facts\<close>

lemmas updaters =
  emit_def updateValue_LockTargetState_def updateValue_LockCurrentState_def
  updateValue_BatteryLevel_def updateValue_StatusLowBattery_def
  updateCharacteristic_LastActivation_def updateCharacteristic_TimesOpened_def
  set_lastActivation_def set_timesOpened_def set_lastReset_def
  getLockState_def getBatteryLevel_def getStatusLowBattery_def addEntry_def

lemmas dispatch_defs =
  setLockTargetState_try_def runExclusive_def setLockTargetState_exclusive_def postCmd_def
  isWebAPIMode_def updateToLatestStatus_def

lemmas sample_defs =
  sample_polling_def sample_push_def Sesame3_constructor_def nullish_def
  new_platformAccessory_def setupHistoryService_def updateHistory_def Let_def emit_def
  subscribe_def updateToLatestStatus_def sample_fakegato_def sample_sensor_def addEntry_def
  sample_locked_def sample_unlocked_def sample_ambiguous_def

text \<open>What the change handler does to the persisted context.\<close>

lemma onChange_context:
  "context (accessory (ContactSensorState_onChange now ov nv this)) =
     (case historyService this of
        None \<Rightarrow> context (accessory this)
      | Some h \<Rightarrow>
          if nv \<noteq> ov then
            (context (accessory this))
              \<lparr>lastActivation := Some now,
               timesOpened := (if truthy nv then increment (timesOpened (context (accessory this)))
                               else timesOpened (context (accessory this)))\<rparr>
          else context (accessory this))"
  by (simp add: ContactSensorState_onChange_def updaters Let_def split: option.splits)

lemma updateContactSensorState_lockState:
  "lockState (context (accessory (updateContactSensorState now this))) =
   lockState (context (accessory this))"
  by (simp add: updateContactSensorState_def onChange_context emit_def Let_def
      split: option.splits)

lemma updateContactSensorState_battery:
  "batteryLevel (context (accessory (updateContactSensorState now this))) =
     batteryLevel (context (accessory this)) \<and>
   batteryCritical (context (accessory (updateContactSensorState now this))) =
     batteryCritical (context (accessory this))"
  by (simp add: updateContactSensorState_def onChange_context emit_def Let_def
      split: option.splits)

text \<open>The stored lock state after a sample.\<close>

lemma setLockStatus_lockState:
  "lockState (context (accessory (setLockStatus now st this))) =
     (if isInLockRange st = isInUnlockRange st then lockState (context (accessory this))
      else Some (if isInLockRange st then SECURED else UNSECURED))"
  by (auto simp add: setLockStatus_def updateContactSensorState_lockState updaters Let_def)

text \<open>The two ways out of the \<open>try\<close> block of \<open>setLockTargetState\<close>.\<close>

lemma setLockTargetState_try_failure:
  "setLockTargetState_try (Some e) v cmd this =
     (None,
      this\<lparr>accessory := (accessory this)
              \<lparr>LockTargetState := Some v, LockCurrentState := Some JAMMED\<rparr>,
           effects := effects this @
              [Acquire, Update_LockTargetState (Some v), PostCmd cmd, Release,
               Update_LockCurrentState (Some JAMMED)]\<rparr>)"
  by (simp add: dispatch_defs updaters)

lemma setLockTargetState_try_success:
  "setLockTargetState_try None v cmd this =
     (None,
      this\<lparr>accessory := (accessory this)\<lparr>LockTargetState := Some v\<rparr>,
           effects := effects this @
             (if client this = CandyClient
              then [Acquire, Update_LockTargetState (Some v), PostCmd cmd, Sleep 2500,
                    GetMechStatus, Release]
              else [Acquire, Update_LockTargetState (Some v), PostCmd cmd, Release])\<rparr>)"
  by (simp add: dispatch_defs updaters)

lemma onChange_sensor_state:
  "getService_ContactSensor (accessory this) = Some sensor \<Longrightarrow>
   \<exists>sensor'. getService_ContactSensor (accessory (ContactSensorState_onChange now ov nv this))
        = Some sensor' \<and>
      ContactSensorState_value sensor' = ContactSensorState_value sensor"
  by (simp add: ContactSensorState_onChange_def updaters Let_def split: option.splits)

lemma onChange_historyService:
  "(historyService (ContactSensorState_onChange now ov nv this) = None) =
   (historyService this = None)"
  by (simp add: ContactSensorState_onChange_def updaters Let_def split: option.splits)

lemma updateContactSensorState_timesOpened:
  assumes "getService_ContactSensor (accessory this) = Some sensor"
    and "historyService this = Some h"
  shows "timesOpened (context (accessory (updateContactSensorState now this))) =
     (if lockState (context (accessory this)) \<noteq> Some SECURED \<and>
         ContactSensorState_value sensor = CONTACT_DETECTED
      then increment (timesOpened (context (accessory this)))
      else timesOpened (context (accessory this)))"
  using assms
  by (cases "ContactSensorState_value sensor")
     (simp_all add: updateContactSensorState_def onChange_context emit_def Let_def)

lemma updateContactSensorState_sensor:
  assumes "getService_ContactSensor (accessory this) = Some sensor"
  shows "\<exists>sensor'. getService_ContactSensor (accessory (updateContactSensorState now this))
           = Some sensor' \<and>
         ContactSensorState_value sensor' =
           (if lockState (context (accessory this)) = Some SECURED
            then CONTACT_DETECTED else CONTACT_NOT_DETECTED)"
proof -
  let ?state = "if lockState (context (accessory this)) = Some SECURED
                then CONTACT_DETECTED else CONTACT_NOT_DETECTED"
  define this1 where "this1 = emit (Update_ContactSensorState ?state)
                        (this\<lparr>accessory := (accessory this)
                           \<lparr>getService_ContactSensor :=
                              Some (sensor\<lparr>ContactSensorState_value := ?state\<rparr>)\<rparr>\<rparr>)"
  have eq: "updateContactSensorState now this =
            ContactSensorState_onChange now (ContactSensorState_value sensor) ?state this1"
    using assms by (simp add: updateContactSensorState_def this1_def Let_def)
  have "getService_ContactSensor (accessory this1) =
          Some (sensor\<lparr>ContactSensorState_value := ?state\<rparr>)"
    by (simp add: this1_def emit_def)
  from onChange_sensor_state [OF this] show ?thesis
    unfolding eq by simp
qed

lemma updateContactSensorState_historyService:
  "(historyService (updateContactSensorState now this) = None) = (historyService this = None)"
  by (simp add: updateContactSensorState_def onChange_historyService emit_def Let_def
      split: option.splits)

text \<open>A sample that changes the stored state: counter, sensor and history service after it.\<close>

lemma setLockStatus_change:
  assumes "isInLockRange st \<noteq> isInUnlockRange st"
    and "lockState (context (accessory this)) \<noteq> Some (if isInLockRange st then SECURED else UNSECURED)"
    and "getService_ContactSensor (accessory this) = Some sensor"
    and "historyService this = Some h"
  shows "timesOpened (context (accessory (setLockStatus now st this))) =
           (if \<not> isInLockRange st \<and> ContactSensorState_value sensor = CONTACT_DETECTED
            then increment (timesOpened (context (accessory this)))
            else timesOpened (context (accessory this)))"
    and "\<exists>sensor'. getService_ContactSensor (accessory (setLockStatus now st this)) = Some sensor' \<and>
           ContactSensorState_value sensor' =
             (if isInLockRange st then CONTACT_DETECTED else CONTACT_NOT_DETECTED)"
    and "historyService (setLockStatus now st this) \<noteq> None"
    and "lockState (context (accessory (setLockStatus now st this))) =
           Some (if isInLockRange st then SECURED else UNSECURED)"
proof -
  define new where "new = (if isInLockRange st then SECURED else UNSECURED)"
  define s5 where "s5 = updateValue_StatusLowBattery (Some (isBatteryCritical st))
     (updateValue_BatteryLevel (Some (batteryPercentage st))
       (updateValue_LockCurrentState (Some new)
         (updateValue_LockTargetState (Some new)
           (this\<lparr>accessory := (accessory this)
                           \<lparr>context := (context (accessory this))
                              \<lparr>lockState := Some new,
                               batteryLevel := Some (batteryPercentage st),
                               batteryCritical := Some (isBatteryCritical st)\<rparr>\<rparr>\<rparr>))))"
  from assms(1,2) have eq: "setLockStatus now st this = updateContactSensorState now s5"
    by (simp add: setLockStatus_def Let_def getLockState_def getBatteryLevel_def
        getStatusLowBattery_def updateValue_LockTargetState_def updateValue_LockCurrentState_def
        updateValue_BatteryLevel_def updateValue_StatusLowBattery_def emit_def s5_def new_def)
  have s5: "getService_ContactSensor (accessory s5) = Some sensor"
      "historyService s5 = Some h"
      "timesOpened (context (accessory s5)) = timesOpened (context (accessory this))"
      "lockState (context (accessory s5)) = Some new"
    using assms(3,4)
    by (simp_all add: updateValue_LockTargetState_def updateValue_LockCurrentState_def
        updateValue_BatteryLevel_def updateValue_StatusLowBattery_def emit_def s5_def)
  have new: "(Some new \<noteq> Some SECURED) = (\<not> isInLockRange st)"
       "(Some new = Some SECURED) = isInLockRange st"
    by (simp_all add: new_def)
  show "timesOpened (context (accessory (setLockStatus now st this))) =
           (if \<not> isInLockRange st \<and> ContactSensorState_value sensor = CONTACT_DETECTED
            then increment (timesOpened (context (accessory this)))
            else timesOpened (context (accessory this)))"
    unfolding eq updateContactSensorState_timesOpened [OF s5(1,2)] s5(3,4) new ..
  show "\<exists>sensor'. getService_ContactSensor (accessory (setLockStatus now st this)) = Some sensor' \<and>
           ContactSensorState_value sensor' =
             (if isInLockRange st then CONTACT_DETECTED else CONTACT_NOT_DETECTED)"
    using updateContactSensorState_sensor [OF s5(1), of now]
    unfolding eq s5(4) new .
  show "historyService (setLockStatus now st this) \<noteq> None"
    unfolding eq updateContactSensorState_historyService s5(2) by simp
  show "lockState (context (accessory (setLockStatus now st this))) =
           Some (if isInLockRange st then SECURED else UNSECURED)"
    using assms(1) by (simp add: setLockStatus_lockState)
qed

lemma ResetTotal_onSet_facts:
  "timesOpened (context (accessory (ResetTotal_onSet T this))) = Number 0"
  "lastReset (context (accessory (ResetTotal_onSet T this))) = Some T"
  "lastActivation (context (accessory (ResetTotal_onSet T this))) =
     lastActivation (context (accessory this))"
  "lockState (context (accessory (ResetTotal_onSet T this))) =
     lockState (context (accessory this))"
  "historyService (ResetTotal_onSet T this) = historyService this"
  "getService_ContactSensor (accessory this) = Some sensor \<Longrightarrow>
   getService_ContactSensor (accessory (ResetTotal_onSet T this)) =
     Some (sensor\<lparr>TimesOpened_value := Number 0\<rparr>)"
  "getService_ContactSensor (accessory this) = Some sensor \<Longrightarrow>
   effects (ResetTotal_onSet T this) = effects this @ [Update_TimesOpened (Number 0)]"
  by (simp_all add: ResetTotal_onSet_def updaters split: option.splits)

text \<open>The lock state in the context is only written by the reconciler and the constructor.\<close>

lemma constructor_lockState:
  "lockState (context (accessory (Sesame3_constructor clientID history addService fakegato now acc)))
     = nullish (lockState (context acc)) SECURED"
  by (simp add: Sesame3_constructor_def setupHistoryService_def updateHistory_def Let_def
      emit_def subscribe_def updateToLatestStatus_def split: option.splits)

lemma setLockTargetState_context:
  "context (accessory (snd (setLockTargetState response v this))) = context (accessory this)"
  by (cases v; cases response) (simp_all add: setLockTargetState_try_failure setLockTargetState_try_success)

lemma setTimeout_fire_context:
  "context (accessory (setTimeout_fire now this)) = context (accessory this)"
  by (simp add: setTimeout_fire_def updateHistory_def emit_def Let_def split: list.splits option.splits)

lemma ResetTotal_onSet_lockState:
  "lockState (context (accessory (ResetTotal_onSet T this))) = lockState (context (accessory this))"
  by (simp add: ResetTotal_onSet_def updaters split: option.splits)

lemma step_known:
  assumes k: "known (lockState (context (accessory this)))"
  shows "known (lockState (context (accessory (step e this))))"
proof (cases e)
  case (Subscription now st)
  with k show ?thesis
    by (simp add: setLockStatus_lockState known_def)
next
  case (MechStatus now st)
  with k show ?thesis
    by (cases st) (simp_all add: updateToLatestStatus_resume_def setLockStatus_lockState known_def)
next
  case (LockTargetState_onSet response v)
  with k show ?thesis by (simp add: setLockTargetState_context)
next
  case (Timeout now)
  with k show ?thesis by (simp add: setTimeout_fire_context)
next
  case (ResetTotal_write T)
  with k show ?thesis by (simp add: ResetTotal_onSet_lockState)
next
  case SHUTDOWN
  with k show ?thesis by (simp add: onShutdown_def emit_def)
next
  case (Restart clientID history addService fakegato now)
  with k show ?thesis
    by (auto simp add: constructor_lockState nullish_def known_def)
qed

lemma run_known:
  "known (lockState (context (accessory this))) \<Longrightarrow>
   known (lockState (context (accessory (run es this))))"
  by (induction es arbitrary: this) (simp_all add: step_known)

text \<open>With the history set up, the constructor has replaced a missing \<open>lastReset\<close>.\<close>

lemma constructor_lastReset:
  "historyService (Sesame3_constructor clientID history addService fakegato now acc) \<noteq> None \<Longrightarrow>
   lastReset (context (accessory
     (Sesame3_constructor clientID history addService fakegato now acc))) \<noteq> None"
  by (simp add: Sesame3_constructor_def nullish_def setupHistoryService_def updateHistory_def
      Let_def emit_def subscribe_def updateToLatestStatus_def split: if_splits option.splits)

section \<open>Properties\<close>

text \<open>
  C1: a sample whose \<open>isInLockRange\<close> equals its \<open>isInUnlockRange\<close> is discarded:
  \<open>setLockStatus\<close> returns the very same accessory, so no persisted field changes, no
  characteristic is updated and no history entry or contact notification is made (all of
  them are part of the record).
\<close>

theorem setLockStatus_ambiguous_noop:
  "isInLockRange st = isInUnlockRange st \<Longrightarrow> setLockStatus now st this = this"
  by (simp add: setLockStatus_def)

theorem setLockStatus_ambiguous_noop_witness:
  "isInLockRange sample_ambiguous = isInUnlockRange sample_ambiguous \<and>
   setLockStatus 1700000100 sample_ambiguous sample_polling = sample_polling"
proof -
  have h: "isInLockRange sample_ambiguous = isInUnlockRange sample_ambiguous"
    by (simp add: sample_ambiguous_def)
  from setLockStatus_ambiguous_noop [OF h, of 1700000100 sample_polling] h
  show ?thesis by simp
qed

text \<open>
  C2: a valid sample that derives the lock state already stored changes nothing: the
  accessory comes back as it was, with no update, no history entry and no mutation. Hence
  the same sample applied a second time is a no-op, whatever the first application did.
\<close>

theorem setLockStatus_same_state_noop:
  "(isInLockRange st \<noteq> isInUnlockRange st \<and>
    lockState (context (accessory this)) = Some (if isInLockRange st then SECURED else UNSECURED)
      \<longrightarrow> setLockStatus now st this = this) \<and>
   setLockStatus now' st (setLockStatus now st this) = setLockStatus now st this"
proof
  show "isInLockRange st \<noteq> isInUnlockRange st \<and>
    lockState (context (accessory this)) = Some (if isInLockRange st then SECURED else UNSECURED)
      \<longrightarrow> setLockStatus now st this = this"
    by (simp add: setLockStatus_def)
next
  let ?this' = "setLockStatus now st this"
  show "setLockStatus now' st ?this' = ?this'"
  proof (cases "isInLockRange st = isInUnlockRange st")
    case True
    then show ?thesis by (simp add: setLockStatus_def)
  next
    case False
    then have "lockState (context (accessory ?this')) =
                 Some (if isInLockRange st then SECURED else UNSECURED)"
      by (simp add: setLockStatus_lockState)
    then show ?thesis
      by (simp add: setLockStatus_def [of now' st ?this'])
  qed
qed

theorem setLockStatus_same_state_noop_witness:
  "isInLockRange sample_locked \<noteq> isInUnlockRange sample_locked \<and>
   lockState (context (accessory sample_polling)) = Some SECURED \<and>
   setLockStatus 1700000100 sample_locked sample_polling = sample_polling \<and>
   setLockStatus 1700000200 sample_unlocked (setLockStatus 1700000100 sample_unlocked sample_polling)
     = setLockStatus 1700000100 sample_unlocked sample_polling"
proof -
  have h: "isInLockRange sample_locked \<noteq> isInUnlockRange sample_locked \<and>
           lockState (context (accessory sample_polling)) = Some SECURED"
    by (simp add: sample_defs)
  from setLockStatus_same_state_noop [of sample_locked sample_polling 1700000100] h
  have "setLockStatus 1700000100 sample_locked sample_polling = sample_polling"
    by (simp add: sample_locked_def)
  moreover from setLockStatus_same_state_noop
    [of sample_unlocked sample_polling 1700000100 1700000200]
  have "setLockStatus 1700000200 sample_unlocked
          (setLockStatus 1700000100 sample_unlocked sample_polling)
        = setLockStatus 1700000100 sample_unlocked sample_polling"
    by simp
  ultimately show ?thesis using h by simp
qed

text \<open>
  C3: when \<open>postCmd\<close> fails during a dispatch with a valid target (whatever the error
  and whatever the accessory's state before) no exception leaves \<open>setLockTargetState\<close>, and
  the exposed \<open>LockCurrentState\<close> characteristic is \<open>JAMMED\<close> afterwards.
\<close>

theorem setLockTargetState_failure_jammed:
  "v = SECURED \<or> v = UNSECURED \<Longrightarrow>
   fst (setLockTargetState (Some e) v this) = None \<and>
   LockCurrentState (accessory (snd (setLockTargetState (Some e) v this))) = Some JAMMED"
  by (auto simp add: setLockTargetState_try_failure)

theorem setLockTargetState_failure_jammed_witness:
  "fst (setLockTargetState (Some (Error ''timeout'')) UNSECURED sample_polling) = None \<and>
   LockCurrentState (accessory
     (snd (setLockTargetState (Some (Error ''timeout'')) UNSECURED sample_polling))) = Some JAMMED"
  using setLockTargetState_failure_jammed [of UNSECURED "Error ''timeout''" sample_polling]
  by simp

text \<open>
  C9: a failed dispatch leaves the exposed \<open>LockTargetState\<close> at the requested value
  written before the command was sent, changes \<open>LockCurrentState\<close> to \<open>JAMMED\<close>, and
  touches nothing else of the accessory: the persisted context, the battery and sensor
  characteristics and the history are as before.
\<close>

theorem setLockTargetState_failure_frame:
  "v = SECURED \<or> v = UNSECURED \<Longrightarrow>
   LockTargetState (accessory (snd (setLockTargetState (Some e) v this))) = Some v \<and>
   context (accessory (snd (setLockTargetState (Some e) v this))) = context (accessory this) \<and>
   accessory (snd (setLockTargetState (Some e) v this)) =
     (accessory this)\<lparr>LockTargetState := Some v, LockCurrentState := Some JAMMED\<rparr> \<and>
   historyService (snd (setLockTargetState (Some e) v this)) = historyService this"
  by (auto simp add: setLockTargetState_try_failure)

theorem setLockTargetState_failure_frame_witness:
  "LockTargetState (accessory
     (snd (setLockTargetState (Some (Error ''rejected'')) SECURED sample_polling))) = Some SECURED \<and>
   context (accessory (snd (setLockTargetState (Some (Error ''rejected'')) SECURED sample_polling)))
     = context (accessory sample_polling)"
  using setLockTargetState_failure_frame [of SECURED "Error ''rejected''" sample_polling]
  by simp

text \<open>
  C5: in a dispatch whose command is accepted, the polling client makes the dispatch sleep
  2500 milliseconds and then call \<open>updateToLatestStatus\<close>, both before the mutex is
  released. The dispatch itself leaves the persisted context alone; the sample that the poll
  brings back is reconciled by \<open>setLockStatus\<close>, so the stored lock state becomes the
  one the sample derives (or stays, for an ambiguous sample), and an empty answer changes
  nothing. With the push client the dispatch sends the command and releases the mutex, and
  no poll is issued.
\<close>

theorem setLockTargetState_success_repoll:
  "v = SECURED \<or> v = UNSECURED \<Longrightarrow>
   context (accessory (snd (setLockTargetState None v this))) = context (accessory this) \<and>
   (client this = CandyClient \<longrightarrow>
      effects (snd (setLockTargetState None v this)) =
        effects this @ [Acquire, Update_LockTargetState (Some v),
                        PostCmd (if v = SECURED then lock else unlock),
                        Sleep 2500, GetMechStatus, Release] \<and>
      updateToLatestStatus_resume now (Some st) (snd (setLockTargetState None v this)) =
        setLockStatus now st (snd (setLockTargetState None v this)) \<and>
      lockState (context (accessory
          (updateToLatestStatus_resume now (Some st) (snd (setLockTargetState None v this))))) =
        (if isInLockRange st = isInUnlockRange st then lockState (context (accessory this))
         else Some (if isInLockRange st then SECURED else UNSECURED)) \<and>
      updateToLatestStatus_resume now None (snd (setLockTargetState None v this)) =
        snd (setLockTargetState None v this)) \<and>
   (client this = CognitoClient \<longrightarrow>
      effects (snd (setLockTargetState None v this)) =
        effects this @ [Acquire, Update_LockTargetState (Some v),
                        PostCmd (if v = SECURED then lock else unlock), Release])"
  by (auto simp add: setLockTargetState_try_success updateToLatestStatus_resume_def
      setLockStatus_lockState)

theorem setLockTargetState_success_repoll_witness:
  "client sample_polling = CandyClient \<and>
   effects (snd (setLockTargetState None UNSECURED sample_polling)) =
     effects sample_polling @ [Acquire, Update_LockTargetState (Some UNSECURED), PostCmd unlock,
                               Sleep 2500, GetMechStatus, Release] \<and>
   lockState (context (accessory (snd (setLockTargetState None UNSECURED sample_polling))))
     = Some SECURED \<and>
   lockState (context (accessory
      (updateToLatestStatus_resume 1700000103 (Some sample_unlocked)
         (snd (setLockTargetState None UNSECURED sample_polling))))) = Some UNSECURED \<and>
   client sample_push = CognitoClient \<and>
   effects (snd (setLockTargetState None SECURED sample_push)) =
     effects sample_push @ [Acquire, Update_LockTargetState (Some SECURED), PostCmd lock, Release]"
proof -
  have c: "client sample_polling = CandyClient" "client sample_push = CognitoClient"
      "lockState (context (accessory sample_polling)) = Some SECURED"
      "isInLockRange sample_unlocked \<noteq> isInUnlockRange sample_unlocked"
      "\<not> isInLockRange sample_unlocked"
    by (simp_all add: sample_defs)
  note r = setLockTargetState_success_repoll [of UNSECURED sample_polling 1700000103 sample_unlocked]
  from r c(1) have e: "effects (snd (setLockTargetState None UNSECURED sample_polling)) =
     effects sample_polling @ [Acquire, Update_LockTargetState (Some UNSECURED), PostCmd unlock,
                               Sleep 2500, GetMechStatus, Release]"
    by simp
  from r c(3) have k: "lockState (context (accessory
      (snd (setLockTargetState None UNSECURED sample_polling)))) = Some SECURED"
    by simp
  from r c(1) have "lockState (context (accessory
      (updateToLatestStatus_resume 1700000103 (Some sample_unlocked)
         (snd (setLockTargetState None UNSECURED sample_polling))))) =
      (if isInLockRange sample_unlocked = isInUnlockRange sample_unlocked
       then lockState (context (accessory sample_polling))
       else Some (if isInLockRange sample_unlocked then SECURED else UNSECURED))"
    by blast
  with c(4,5) have l: "lockState (context (accessory
      (updateToLatestStatus_resume 1700000103 (Some sample_unlocked)
         (snd (setLockTargetState None UNSECURED sample_polling))))) = Some UNSECURED"
    by simp
  note a = e k l
  from setLockTargetState_success_repoll [of SECURED sample_push] c(2)
  have "effects (snd (setLockTargetState None SECURED sample_push)) =
     effects sample_push @ [Acquire, Update_LockTargetState (Some SECURED), PostCmd lock, Release]"
    by simp
  with a c show ?thesis by simp
qed

text \<open>
  The claim C4 as written, that every valid sample refreshes the stored battery fields,
  fails on a sample that derives the stored lock state: the locked sample reports 40 percent
  and the accessory, already secured, keeps its 100.
\<close>

theorem setLockStatus_battery_counterexample:
  "isInLockRange sample_locked \<noteq> isInUnlockRange sample_locked \<and>
   batteryLevel (context (accessory (setLockStatus 1700000100 sample_locked sample_polling))) \<noteq>
     Some (batteryPercentage sample_locked)"
  by (simp add: setLockStatus_def sample_defs)

text \<open>
  C4, amended: a valid sample whose derived lock state differs from the stored one stores
  \<open>batteryLevel\<close> from \<open>batteryPercentage\<close> and \<open>batteryCritical\<close> from
  \<open>isBatteryCritical\<close>; a valid sample that derives the stored lock state leaves both
  battery fields as they were.
\<close>

theorem setLockStatus_battery_on_change:
  "isInLockRange st \<noteq> isInUnlockRange st \<Longrightarrow>
   (lockState (context (accessory this)) \<noteq> Some (if isInLockRange st then SECURED else UNSECURED) \<longrightarrow>
      batteryLevel (context (accessory (setLockStatus now st this))) = Some (batteryPercentage st) \<and>
      batteryCritical (context (accessory (setLockStatus now st this))) = Some (isBatteryCritical st)) \<and>
   (lockState (context (accessory this)) = Some (if isInLockRange st then SECURED else UNSECURED) \<longrightarrow>
      batteryLevel (context (accessory (setLockStatus now st this))) =
        batteryLevel (context (accessory this)) \<and>
      batteryCritical (context (accessory (setLockStatus now st this))) =
        batteryCritical (context (accessory this)))"
  by (auto simp add: setLockStatus_def updateContactSensorState_battery updaters Let_def)

theorem setLockStatus_battery_on_change_witness:
  "isInLockRange sample_unlocked \<noteq> isInUnlockRange sample_unlocked \<and>
   lockState (context (accessory sample_polling)) \<noteq> Some UNSECURED \<and>
   batteryLevel (context (accessory (setLockStatus 1700000100 sample_unlocked sample_polling)))
     = Some 40 \<and>
   batteryCritical (context (accessory (setLockStatus 1700000100 sample_unlocked sample_polling)))
     = Some False \<and>
   isInLockRange sample_locked \<noteq> isInUnlockRange sample_locked \<and>
   lockState (context (accessory sample_polling)) = Some SECURED \<and>
   batteryLevel (context (accessory (setLockStatus 1700000100 sample_locked sample_polling)))
     = Some 100"
proof -
  have h: "isInLockRange sample_unlocked \<noteq> isInUnlockRange sample_unlocked"
      "isInLockRange sample_locked \<noteq> isInUnlockRange sample_locked"
      "lockState (context (accessory sample_polling)) = Some SECURED"
      "batteryLevel (context (accessory sample_polling)) = Some 100"
    by (simp_all add: sample_defs)
  from setLockStatus_battery_on_change [OF h(1), of sample_polling 1700000100] h(3)
  have a: "batteryLevel (context (accessory
             (setLockStatus 1700000100 sample_unlocked sample_polling))) = Some 40 \<and>
           batteryCritical (context (accessory
             (setLockStatus 1700000100 sample_unlocked sample_polling))) = Some False"
    by (simp add: sample_unlocked_def)
  from setLockStatus_battery_on_change [OF h(2), of sample_polling 1700000100] h(3) h(4)
  have b: "batteryLevel (context (accessory
             (setLockStatus 1700000100 sample_locked sample_polling))) = Some 100"
    by (simp add: sample_locked_def)
  from a b h show ?thesis by simp
qed

text \<open>
  The claim C6 as written has the heartbeat timer cancelled at shutdown. The shutdown handler
  only shuts the client down: after it the timer set by the first heartbeat is still pending.
\<close>

theorem onShutdown_timer_counterexample:
  "timers (onShutdown sample_polling) \<noteq> []"
  by (simp add: onShutdown_def sample_defs)

text \<open>
  C6, amended: each heartbeat appends one entry whose contact state is derived from the
  stored lock state (contact detected exactly when it is \<open>SECURED\<close>), whether or not the
  state has changed, and sets a timer of 600000 milliseconds (10 minutes) for the next one.
  A firing timer does the same: it leaves the queue, the entry is appended, the next timer
  is set, and the accessory is untouched. The shutdown handler shuts the client down and
  leaves the pending timer and the history in place.
\<close>

theorem updateHistory_heartbeat:
  "historyService this = Some h \<Longrightarrow>
   fst (updateHistory now this) = None \<and>
   historyService (snd (updateHistory now this)) =
     Some (h\<lparr>entries := entries h @
        [\<lparr>time = now,
          status = (if lockState (context (accessory this)) = Some SECURED
                    then CONTACT_DETECTED else CONTACT_NOT_DETECTED)\<rparr>]\<rparr>) \<and>
   timers (snd (updateHistory now this)) = timers this @ [600000] \<and>
   (\<forall>t ts. timers this = t # ts \<longrightarrow>
      timers (setTimeout_fire now this) = ts @ [600000] \<and>
      historyService (setTimeout_fire now this) =
        Some (h\<lparr>entries := entries h @
           [\<lparr>time = now,
             status = (if lockState (context (accessory this)) = Some SECURED
                       then CONTACT_DETECTED else CONTACT_NOT_DETECTED)\<rparr>]\<rparr>) \<and>
      accessory (setTimeout_fire now this) = accessory this \<and>
      step (Timeout now) this = setTimeout_fire now this) \<and>
   timers (onShutdown this) = timers this \<and>
   historyService (onShutdown this) = historyService this \<and>
   effects (onShutdown this) = effects this @ [ClientShutdown]"
  by (simp add: updateHistory_def setTimeout_fire_def onShutdown_def emit_def addEntry_def Let_def)

theorem updateHistory_heartbeat_witness:
  "historyService sample_polling =
     Some \<lparr>getInitialTime = 1700000000,
           entries = [\<lparr>time = 1700000000, status = CONTACT_DETECTED\<rparr>]\<rparr> \<and>
   timers sample_polling = [600000] \<and>
   historyService (snd (updateHistory 1700000600 sample_polling)) =
     Some \<lparr>getInitialTime = 1700000000,
           entries = [\<lparr>time = 1700000000, status = CONTACT_DETECTED\<rparr>,
                      \<lparr>time = 1700000600, status = CONTACT_DETECTED\<rparr>]\<rparr> \<and>
   timers (setTimeout_fire 1700000600 sample_polling) = [600000] \<and>
   historyService (setTimeout_fire 1700000600 sample_polling) =
     Some \<lparr>getInitialTime = 1700000000,
           entries = [\<lparr>time = 1700000000, status = CONTACT_DETECTED\<rparr>,
                      \<lparr>time = 1700000600, status = CONTACT_DETECTED\<rparr>]\<rparr> \<and>
   timers (onShutdown sample_polling) = [600000]"
proof -
  have h: "historyService sample_polling =
     Some \<lparr>getInitialTime = 1700000000,
           entries = [\<lparr>time = 1700000000, status = CONTACT_DETECTED\<rparr>]\<rparr>"
    and t: "timers sample_polling = [600000]"
    and l: "lockState (context (accessory sample_polling)) = Some SECURED"
    by (simp_all add: sample_defs)
  from updateHistory_heartbeat [OF h, of 1700000600] h t l show ?thesis by simp
qed

text \<open>
  C7 on the code: a new accessory with the history enabled, never reset. The constructor
  has stored 0 as \<open>lastReset\<close>, so the read handler of \<open>ResetTotal\<close> answers 0 and not
  the initial time less the 2001 offset, which would be 721692800 here.
\<close>

theorem ResetTotal_onGet_fresh:
  "lastReset (context (accessory sample_polling)) = Some 0 \<and>
   ResetTotal_onGet sample_polling = Inr 0 \<and>
   getInitialTime sample_fakegato - epoch_2001 = 721692800"
  by (simp add: ResetTotal_onGet_def sample_defs epoch_2001_def)

text \<open>
  C8: the write handler of \<open>ResetTotal\<close> sets \<open>timesOpened\<close> to 0 and \<open>lastReset\<close>
  to the value written, leaves \<open>lastActivation\<close> and the history log alone, and
  publishes 0 as \<open>TimesOpened\<close> on the sensor the handler belongs to. The next change into
  the open state then counts 1: at once when the lock was secured, and after the closing
  change (which keeps the 0) when it was unsecured.
\<close>

theorem ResetTotal_onSet_resets:
  "timesOpened (context (accessory (ResetTotal_onSet T this))) = Number 0 \<and>
   lastReset (context (accessory (ResetTotal_onSet T this))) = Some T \<and>
   lastActivation (context (accessory (ResetTotal_onSet T this))) =
     lastActivation (context (accessory this)) \<and>
   historyService (ResetTotal_onSet T this) = historyService this \<and>
   (\<forall>sensor. getService_ContactSensor (accessory this) = Some sensor \<longrightarrow>
      getService_ContactSensor (accessory (ResetTotal_onSet T this)) =
        Some (sensor\<lparr>TimesOpened_value := Number 0\<rparr>) \<and>
      effects (ResetTotal_onSet T this) = effects this @ [Update_TimesOpened (Number 0)] \<and>
      (historyService this \<noteq> None \<and> lockState (context (accessory this)) = Some SECURED \<and>
       ContactSensorState_value sensor = CONTACT_DETECTED \<and>
       \<not> isInLockRange st \<and> isInUnlockRange st \<longrightarrow>
         timesOpened (context (accessory (setLockStatus now st (ResetTotal_onSet T this))))
           = Number 1) \<and>
      (historyService this \<noteq> None \<and> lockState (context (accessory this)) = Some UNSECURED \<and>
       ContactSensorState_value sensor = CONTACT_NOT_DETECTED \<and>
       isInLockRange st' \<and> \<not> isInUnlockRange st' \<and>
       \<not> isInLockRange st \<and> isInUnlockRange st \<longrightarrow>
         timesOpened (context (accessory (setLockStatus now' st' (ResetTotal_onSet T this))))
           = Number 0 \<and>
         timesOpened (context (accessory
            (setLockStatus now st (setLockStatus now' st' (ResetTotal_onSet T this)))))
           = Number 1))"
proof (intro conjI allI impI)
  fix sensor
  assume sensor: "getService_ContactSensor (accessory this) = Some sensor"
  let ?r = "ResetTotal_onSet T this"
  have rs: "getService_ContactSensor (accessory ?r) = Some (sensor\<lparr>TimesOpened_value := Number 0\<rparr>)"
    using sensor by (rule ResetTotal_onSet_facts)
  {
    assume a: "historyService this \<noteq> None \<and> lockState (context (accessory this)) = Some SECURED \<and>
       ContactSensorState_value sensor = CONTACT_DETECTED \<and>
       \<not> isInLockRange st \<and> isInUnlockRange st"
    then obtain h where h: "historyService ?r = Some h"
      by (auto simp add: ResetTotal_onSet_facts)
    from a have v: "isInLockRange st \<noteq> isInUnlockRange st"
      "lockState (context (accessory ?r)) \<noteq> Some (if isInLockRange st then SECURED else UNSECURED)"
      by (simp_all add: ResetTotal_onSet_facts)
    from setLockStatus_change(1) [OF v rs h, of now] a
    show "timesOpened (context (accessory (setLockStatus now st ?r))) = Number 1"
      by (simp add: ResetTotal_onSet_facts)
  }
  {
    assume a: "historyService this \<noteq> None \<and> lockState (context (accessory this)) = Some UNSECURED \<and>
       ContactSensorState_value sensor = CONTACT_NOT_DETECTED \<and>
       isInLockRange st' \<and> \<not> isInUnlockRange st' \<and>
       \<not> isInLockRange st \<and> isInUnlockRange st"
    then obtain h where h: "historyService ?r = Some h"
      by (auto simp add: ResetTotal_onSet_facts)
    let ?c = "setLockStatus now' st' ?r"
    from a have v: "isInLockRange st' \<noteq> isInUnlockRange st'"
      "lockState (context (accessory ?r)) \<noteq> Some (if isInLockRange st' then SECURED else UNSECURED)"
      by (simp_all add: ResetTotal_onSet_facts)
    note c = setLockStatus_change [OF v rs h, of now']
    from c(1) a show c0: "timesOpened (context (accessory ?c)) = Number 0"
      by (simp add: ResetTotal_onSet_facts)
    from c(2) a obtain sensor' where s': "getService_ContactSensor (accessory ?c) = Some sensor'"
      "ContactSensorState_value sensor' = CONTACT_DETECTED"
      by auto
    from c(3) obtain h' where h': "historyService ?c = Some h'" by auto
    from a c(4) have v': "isInLockRange st \<noteq> isInUnlockRange st"
      "lockState (context (accessory ?c)) \<noteq> Some (if isInLockRange st then SECURED else UNSECURED)"
      by simp_all
    from setLockStatus_change(1) [OF v' s'(1) h', of now] a s'(2) c0
    show "timesOpened (context (accessory (setLockStatus now st ?c))) = Number 1"
      by simp
  }
qed (simp_all add: ResetTotal_onSet_facts)

theorem ResetTotal_onSet_resets_witness:
  "getService_ContactSensor (accessory sample_polling) = Some sample_sensor \<and>
   lockState (context (accessory sample_polling)) = Some SECURED \<and>
   timesOpened (context (accessory (ResetTotal_onSet 1700000050 sample_polling))) = Number 0 \<and>
   lastReset (context (accessory (ResetTotal_onSet 1700000050 sample_polling)))
     = Some 1700000050 \<and>
   effects (ResetTotal_onSet 1700000050 sample_polling) =
     effects sample_polling @ [Update_TimesOpened (Number 0)] \<and>
   timesOpened (context (accessory
     (setLockStatus 1700000100 sample_unlocked (ResetTotal_onSet 1700000050 sample_polling))))
     = Number 1"
proof -
  have h: "getService_ContactSensor (accessory sample_polling) = Some sample_sensor"
      "lockState (context (accessory sample_polling)) = Some SECURED"
      "historyService sample_polling \<noteq> None"
      "ContactSensorState_value sample_sensor = CONTACT_DETECTED"
      "\<not> isInLockRange sample_unlocked" "isInUnlockRange sample_unlocked"
    by (simp_all add: sample_defs)
  from ResetTotal_onSet_resets
    [of 1700000050 sample_polling sample_unlocked 1700000100 sample_locked 0] h
  show ?thesis by simp
qed

text \<open>
  C10: start from an accessory whose context holds no lock state or one this code has
  stored, construct the class, and let any sequence of events happen (samples, poll
  answers, dispatches that succeed or fail, heartbeats, resets, shutdown, restarts). The
  persisted lock state, which is what \<open>getLockState\<close> returns, is then \<open>SECURED\<close> or
  \<open>UNSECURED\<close>, never \<open>JAMMED\<close> or \<open>UNKNOWN\<close>.
\<close>

theorem lockState_never_jammed:
  assumes "lockState (context acc) \<in> {None, Some SECURED, Some UNSECURED}"
  shows "getLockState (run es (Sesame3_constructor clientID history addService fakegato now acc))
           \<in> {Some SECURED, Some UNSECURED} \<and>
         lockState (context (accessory
            (run es (Sesame3_constructor clientID history addService fakegato now acc))))
           \<in> {Some SECURED, Some UNSECURED}"
proof -
  let ?s = "Sesame3_constructor clientID history addService fakegato now acc"
  from assms have "known (lockState (context (accessory ?s)))"
    by (auto simp add: constructor_lockState nullish_def known_def)
  then have "known (lockState (context (accessory (run es ?s))))"
    by (rule run_known)
  then show ?thesis
    by (auto simp add: known_def getLockState_def)
qed


theorem lockState_never_jammed_witness:
  "lockState (context new_platformAccessory) \<in> {None, Some SECURED, Some UNSECURED} \<and>
   getLockState (run [Subscription 1700000100 sample_unlocked,
                      LockTargetState_onSet (Some (Error ''timeout'')) SECURED,
                      Timeout 1700000600]
                   (Sesame3_constructor None (Some True) sample_sensor sample_fakegato 1700000000
                      new_platformAccessory))
     \<in> {Some SECURED, Some UNSECURED} \<and>
   LockCurrentState (accessory
     (run [Subscription 1700000100 sample_unlocked,
           LockTargetState_onSet (Some (Error ''timeout'')) SECURED,
           Timeout 1700000600]
        (Sesame3_constructor None (Some True) sample_sensor sample_fakegato 1700000000
           new_platformAccessory))) = Some JAMMED"
proof -
  have h: "lockState (context new_platformAccessory) \<in> {None, Some SECURED, Some UNSECURED}"
    by (simp add: new_platformAccessory_def)
  have j: "LockCurrentState (accessory
     (run [Subscription 1700000100 sample_unlocked,
           LockTargetState_onSet (Some (Error ''timeout'')) SECURED,
           Timeout 1700000600]
        (Sesame3_constructor None (Some True) sample_sensor sample_fakegato 1700000000
           new_platformAccessory))) = Some JAMMED"
    by (simp add: setLockTargetState_try_failure setTimeout_fire_def updateHistory_def
        sample_defs split: list.splits option.splits)
  from lockState_never_jammed [OF h] h j show ?thesis by blast
qed

end
